theory Spec2Isabelle
  imports Complex_Main "HOL-Library.Word"
begin

section \<open>JavaScript values\<close>

text \<open>
  A JavaScript number is a finite value, one of the two infinities, or NaN. Finite values are
  modelled as reals: comparisons, \<open>toFixed\<close> and the index arithmetic of the program are
  then exact, and the rounding of IEEE doubles is not part of the model. There is no negative
  zero (\<open>-0 === 0\<close> holds in JavaScript, and the program never divides by a zero).
\<close>

datatype number = NaN | NegInf | Fin real | PosInf

text \<open>
  The values a parsed CSV cell or a function argument can hold. A \<open>Date\<close> object carries
  its time value in milliseconds since the epoch, \<open>None\<close> for an invalid date.
\<close>

datatype jsval = Undefined | Null | JBool bool | JNum number | JStr string | JDate "int option"

text \<open>The relational operators \<open><=\<close> and \<open>>=\<close>: every comparison with NaN is false.\<close>

fun num_le :: "number \<Rightarrow> number \<Rightarrow> bool" where
  "num_le NaN _ = False"
| "num_le _ NaN = False"
| "num_le NegInf _ = True"
| "num_le _ PosInf = True"
| "num_le (Fin a) (Fin b) = (a \<le> b)"
| "num_le PosInf _ = False"
| "num_le _ NegInf = False"

definition num_ge :: "number \<Rightarrow> number \<Rightarrow> bool" where
  "num_ge a b = num_le b a"

text \<open>\<open>ToBoolean\<close>: what \<open>&&\<close>, \<open>||\<close>, \<open>? :\<close> and \<open>if\<close> test.\<close>

definition falsy_num :: "number \<Rightarrow> bool" where
  "falsy_num n = (n = NaN \<or> n = Fin 0)"

fun truthy :: "jsval \<Rightarrow> bool" where
  "truthy Undefined = False"
| "truthy Null = False"
| "truthy (JBool b) = b"
| "truthy (JNum n) = (\<not> falsy_num n)"
| "truthy (JStr s) = (s \<noteq> [])"
| "truthy (JDate _) = True"

text \<open>\<open>a || d\<close> on a number \<open>a\<close>.\<close>

definition or_default :: "number \<Rightarrow> number \<Rightarrow> number" where
  "or_default a d = (if falsy_num a then d else a)"

subsection \<open>The host\<close>

text \<open>
  What the program takes from the JavaScript host rather than computing itself: the string
  conversions of numbers and dates, the local time zone adjustment \<open>LocalTZA(t, isUTC)\<close> of
  ECMAScript, and the sequence of values that successive calls of \<open>Math.random()\<close> return.
  The theorems below hold for every host unless they say otherwise.
\<close>

record host =
  parseFloat_str :: "string \<Rightarrow> number"
  toNumber_str :: "string \<Rightarrow> number"
  number_toString :: "number \<Rightarrow> string"
  date_parse :: "string \<Rightarrow> int option"
  date_toString :: "int option \<Rightarrow> string"
  localTZA :: "int \<Rightarrow> bool \<Rightarrow> int"
  random :: "nat \<Rightarrow> real"

text \<open>
  \<open>parseFloat(v)\<close> converts \<open>v\<close> to a string and parses its longest numeric prefix. On a
  number that is the number itself (the string of a number reads back as that number); the
  strings of \<open>undefined\<close>, \<open>null\<close>, \<open>true\<close> and \<open>false\<close> have no numeric prefix.
\<close>

fun parseFloat :: "host \<Rightarrow> jsval \<Rightarrow> number" where
  "parseFloat h (JNum n) = n"
| "parseFloat h (JStr s) = parseFloat_str h s"
| "parseFloat h (JDate d) = parseFloat_str h (date_toString h d)"
| "parseFloat h _ = NaN"

text \<open>\<open>v.toString()\<close> and the string of \<open>v\<close> in a template literal or as a property key.\<close>

fun toString :: "host \<Rightarrow> jsval \<Rightarrow> string" where
  "toString h Undefined = ''undefined''"
| "toString h Null = ''null''"
| "toString h (JBool b) = (if b then ''true'' else ''false'')"
| "toString h (JNum n) = number_toString h n"
| "toString h (JStr s) = s"
| "toString h (JDate d) = date_toString h d"

text \<open>\<open>ToNumber\<close>, and \<open>n | 0\<close>, which is \<open>ToInt32\<close>: truncate, then wrap into 32 signed bits.\<close>

fun toNumber :: "host \<Rightarrow> jsval \<Rightarrow> number" where
  "toNumber h Undefined = NaN"
| "toNumber h Null = Fin 0"
| "toNumber h (JBool b) = Fin (if b then 1 else 0)"
| "toNumber h (JNum n) = n"
| "toNumber h (JStr s) = toNumber_str h s"
| "toNumber h (JDate d) = (case d of None \<Rightarrow> NaN | Some t \<Rightarrow> Fin (of_int t))"

definition trunc :: "real \<Rightarrow> int" where
  "trunc x = (if x < 0 then \<lceil>x\<rceil> else \<lfloor>x\<rfloor>)"

fun toInt32 :: "number \<Rightarrow> int" where
  "toInt32 (Fin x) = sint (word_of_int (trunc x) :: 32 word)"
| "toInt32 _ = 0"

text \<open>\<open>const clampInt = (n, lo, hi) => Math.max(lo, Math.min(hi, n | 0))\<close>\<close>

definition clampInt :: "host \<Rightarrow> jsval \<Rightarrow> int \<Rightarrow> int \<Rightarrow> int" where
  "clampInt h n lo hi = max lo (min hi (toInt32 (toNumber h n)))"

text \<open>
  \<open>parseFloat(x.toFixed(1))\<close>: \<open>toFixed(1)\<close> prints the multiple of one tenth nearest to
  the magnitude of \<open>x\<close>, the larger one on a tie, under the sign of \<open>x\<close>; from \<open>10^21\<close> on
  it prints the number as \<open>toString\<close> does, and so it does for NaN and the infinities.
\<close>

definition round1 :: "real \<Rightarrow> real" where
  "round1 x = (if x < 0 then - (of_int \<lfloor>- x * 10 + 1 / 2\<rfloor> / 10)
               else of_int \<lfloor>x * 10 + 1 / 2\<rfloor> / 10)"

fun toFixed1 :: "number \<Rightarrow> number" where
  "toFixed1 (Fin x) = (if 10 ^ 21 \<le> \<bar>x\<bar> then Fin x else Fin (round1 x))"
| "toFixed1 n = n"

section \<open>Coordinate validation\<close>

text \<open>
  \<^verbatim>\<open>
  const isValidCoordinate = (lat, lng) => {
    const latitude = parseFloat(lat);
    const longitude = parseFloat(lng);
    return (!isNaN(latitude) && !isNaN(longitude) &&
      latitude >= -90 && latitude <= 90 && longitude >= -180 && longitude <= 180 &&
      latitude !== 0 && longitude !== 0);
  };\<close>
\<close>

definition isValidCoordinate :: "host \<Rightarrow> jsval \<Rightarrow> jsval \<Rightarrow> bool" where
  "isValidCoordinate h lat lng =
     (let latitude = parseFloat h lat; longitude = parseFloat h lng
      in latitude \<noteq> NaN \<and> longitude \<noteq> NaN \<and>
         num_ge latitude (Fin (- 90)) \<and> num_le latitude (Fin 90) \<and>
         num_ge longitude (Fin (- 180)) \<and> num_le longitude (Fin 180) \<and>
         latitude \<noteq> Fin 0 \<and> longitude \<noteq> Fin 0)"

section \<open>Signal classification\<close>

text \<open>
  The class of an RSRP value, as both the demo generator and \<open>processCsvData\<close> compute it:
  \<^verbatim>\<open>
  let signalClass = 4;
  if (rsrp >= -70) signalClass = 1;
  else if (rsrp >= -85) signalClass = 2;
  else if (rsrp >= -100) signalClass = 3;\<close>
\<close>

definition classify :: "number \<Rightarrow> nat" where
  "classify rsrp =
     (if num_ge rsrp (Fin (- 70)) then 1
      else if num_ge rsrp (Fin (- 85)) then 2
      else if num_ge rsrp (Fin (- 100)) then 3
      else 4)"

section \<open>Strings\<close>

text \<open>
  A string is a list of characters with codes below 256 (ASCII and the Latin-1 supplement);
  \<open>toLowerCase\<close> maps the capital letters of that range to their small letters.
\<close>

definition lower_char :: "char \<Rightarrow> char" where
  "lower_char c =
     (let n = (of_char c :: nat)
      in if (65 \<le> n \<and> n \<le> 90) \<or> (192 \<le> n \<and> n \<le> 222 \<and> n \<noteq> 215)
         then char_of (n + 32) else c)"

definition toLowerCase :: "string \<Rightarrow> string" where
  "toLowerCase s = map lower_char s"

fun startsWith :: "string \<Rightarrow> string \<Rightarrow> bool" where
  "startsWith s [] = True"
| "startsWith [] (w # ws) = False"
| "startsWith (c # s) (w # ws) = (c = w \<and> startsWith s ws)"

text \<open>\<open>s.includes(w)\<close>\<close>

fun str_includes :: "string \<Rightarrow> string \<Rightarrow> bool" where
  "str_includes [] w = (w = [])"
| "str_includes (c # s) w = (startsWith (c # s) w \<or> str_includes s w)"

definition is_digit :: "char \<Rightarrow> bool" where
  "is_digit c = (let n = (of_char c :: nat) in 48 \<le> n \<and> n \<le> 57)"

definition digit_char :: "nat \<Rightarrow> char" where
  "digit_char d = char_of (48 + d)"

text \<open>The decimal digits of a natural number, as a template literal prints an integer.\<close>

fun nat_toString :: "nat \<Rightarrow> string" where
  "nat_toString n =
     (if n < 10 then [digit_char n] else nat_toString (n div 10) @ [digit_char (n mod 10)])"

section \<open>Dates\<close>

text \<open>
  Time values are integers, in milliseconds since 1970-01-01T00:00Z. The functions are those of
  the ECMAScript specification of \<open>Date\<close>. The range limit of a time value (864 * 10^13 ms
  either side of the epoch) is applied where a date is constructed from a cell, and not in
  \<open>setHours\<close> and \<open>setDate\<close>, where the fallback timestamp would reach it only beyond
  2 * 10^9 rows.
\<close>

definition msPerDay :: int where
  "msPerDay = 86400000"

definition msPerHour :: int where
  "msPerHour = 3600000"

definition Day :: "int \<Rightarrow> int" where
  "Day t = t div msPerDay"

definition TimeWithinDay :: "int \<Rightarrow> int" where
  "TimeWithinDay t = t mod msPerDay"

definition HourFromTime :: "int \<Rightarrow> int" where
  "HourFromTime t = (t div msPerHour) mod 24"

text \<open>The proleptic Gregorian calendar: year, month (1 to 12) and day of month of a day number.\<close>

definition civil_of_day :: "int \<Rightarrow> int \<times> int \<times> int" where
  "civil_of_day dn =
     (let z = dn + 719468;
          era = z div 146097;
          doe = z mod 146097;
          yoe = (doe - doe div 1460 + doe div 36524 - doe div 146096) div 365;
          doy = doe - (365 * yoe + yoe div 4 - yoe div 100);
          mp = (5 * doy + 2) div 153;
          d = doy - (153 * mp + 2) div 5 + 1;
          m = (if mp < 10 then mp + 3 else mp - 9);
          y = yoe + era * 400 + (if m \<le> 2 then 1 else 0)
      in (y, m, d))"

definition day_of_civil :: "int \<Rightarrow> int \<Rightarrow> int \<Rightarrow> int" where
  "day_of_civil y m d =
     (let y' = (if m \<le> 2 then y - 1 else y);
          era = y' div 400;
          yoe = y' mod 400;
          doy = (153 * (if 2 < m then m - 3 else m + 9) + 2) div 5 + d - 1;
          doe = yoe * 365 + yoe div 4 - yoe div 100 + doy
      in era * 146097 + doe - 719468)"

definition YearFromTime :: "int \<Rightarrow> int" where
  "YearFromTime t = fst (civil_of_day (Day t))"

definition MonthFromTime :: "int \<Rightarrow> int" where
  "MonthFromTime t = fst (snd (civil_of_day (Day t))) - 1"

definition DateFromTime :: "int \<Rightarrow> int" where
  "DateFromTime t = snd (snd (civil_of_day (Day t)))"

definition MakeTime :: "int \<Rightarrow> int \<Rightarrow> int \<Rightarrow> int \<Rightarrow> int" where
  "MakeTime hr mn sec ms = hr * msPerHour + mn * 60000 + sec * 1000 + ms"

definition MakeDay :: "int \<Rightarrow> int \<Rightarrow> int \<Rightarrow> int" where
  "MakeDay year month dt = day_of_civil (year + month div 12) (month mod 12 + 1) 1 + dt - 1"

definition MakeDate :: "int \<Rightarrow> int \<Rightarrow> int" where
  "MakeDate dy tm = dy * msPerDay + tm"

definition LocalTime :: "host \<Rightarrow> int \<Rightarrow> int" where
  "LocalTime h t = t + localTZA h t True"

definition UTC :: "host \<Rightarrow> int \<Rightarrow> int" where
  "UTC h t = t - localTZA h t False"

definition TimeClip :: "real \<Rightarrow> int option" where
  "TimeClip x = (if 8640000000000000 < \<bar>x\<bar> then None else Some (trunc x))"

text \<open>\<open>new Date(v)\<close>: a copy of a date, the parse of a string, or the number of \<open>v\<close> as a time value.\<close>

fun new_Date :: "host \<Rightarrow> jsval \<Rightarrow> int option" where
  "new_Date h (JDate d) = d"
| "new_Date h (JStr s) = date_parse h s"
| "new_Date h v = (case toNumber h v of Fin x \<Rightarrow> TimeClip x | _ \<Rightarrow> None)"

definition getHours :: "host \<Rightarrow> int \<Rightarrow> int" where
  "getHours h tv = HourFromTime (LocalTime h tv)"

definition getDate :: "host \<Rightarrow> int \<Rightarrow> int" where
  "getDate h tv = DateFromTime (LocalTime h tv)"

text \<open>\<open>d.setHours(hr, 0, 0, 0)\<close> and \<open>d.setDate(dt)\<close>, returning the new time value.\<close>

definition setHours :: "host \<Rightarrow> int \<Rightarrow> int \<Rightarrow> int" where
  "setHours h tv hr = (let t = LocalTime h tv in UTC h (MakeDate (Day t) (MakeTime hr 0 0 0)))"

definition setDate :: "host \<Rightarrow> int \<Rightarrow> int \<Rightarrow> int" where
  "setDate h tv dt =
     (let t = LocalTime h tv
      in UTC h (MakeDate (MakeDay (YearFromTime t) (MonthFromTime t) dt) (TimeWithinDay t)))"

text \<open>\<open>new Date('2025-08-01')\<close>: a date-only string is midnight UTC of that day.\<close>

definition startDate :: int where
  "startDate = 1754006400000"

text \<open>
  The timestamp of a row without a usable time cell:
  \<^verbatim>\<open>
  timestamp = new Date('2025-08-01');
  timestamp.setHours(index % 24, 0, 0, 0);
  timestamp.setDate(timestamp.getDate() + Math.floor(index / 24));\<close>
\<close>

definition fallbackTimestamp :: "host \<Rightarrow> nat \<Rightarrow> int" where
  "fallbackTimestamp h index =
     (let t1 = setHours h startDate (int (index mod 24))
      in setDate h t1 (getDate h t1 + int (index div 24)))"

section \<open>Column mapping\<close>

text \<open>
  The field mapping names, for each canonical field, the source column it is read from; the
  empty string stands for an unmapped field.
\<close>

record mapping =
  map_timestamp :: string
  map_rsrp :: string
  map_rsrq :: string
  map_sinr :: string
  map_technology :: string
  map_location :: string
  map_throughput :: string
  map_latitude :: string
  map_longitude :: string

definition emptyMapping :: mapping where
  "emptyMapping = \<lparr> map_timestamp = [], map_rsrp = [], map_rsrq = [], map_sinr = [],
     map_technology = [], map_location = [], map_throughput = [], map_latitude = [],
     map_longitude = [] \<rparr>"

definition latPatterns :: "string list" where
  "latPatterns = [''lat'', ''latitude'', ''Lat'', ''Latitude'', ''LAT'', ''LATITUDE'',
     ''lat_deg'', ''latitude_deg'', ''lat_decimal'', ''latitude_decimal'']"

definition lngPatterns :: "string list" where
  "lngPatterns = [''lng'', ''lon'', ''long'', ''longitude'', ''Lng'', ''Lon'', ''Long'',
     ''Longitude'', ''LNG'', ''LON'', ''LONG'', ''LONGITUDE'',
     ''lng_deg'', ''lon_deg'', ''longitude_deg'', ''long_decimal'']"

text \<open>\<open>detectCoordinateColumns\<close>: the first pattern of each list that is a header.\<close>

definition detectCoordinateColumns :: "string list \<Rightarrow> string option \<times> string option" where
  "detectCoordinateColumns headers =
     (find (\<lambda>pattern. pattern \<in> set headers) latPatterns,
      find (\<lambda>pattern. pattern \<in> set headers) lngPatterns)"

text \<open>
  One step of the body of \<open>headers.forEach\<close> in \<open>handleCsvUpload\<close>:
  \<open>if (!autoMapping.field && cue) autoMapping.field = h\<close>.
\<close>

definition assignIf ::
  "(mapping \<Rightarrow> string) \<Rightarrow> bool \<Rightarrow> (mapping \<Rightarrow> mapping) \<Rightarrow> mapping \<Rightarrow> mapping" where
  "assignIf field cue assign m = (if field m = [] \<and> cue then assign m else m)"

text \<open>The body of \<open>headers.forEach\<close>, for one header: its seven steps in order.\<close>

definition autoMapHeader :: "mapping \<Rightarrow> string \<Rightarrow> mapping" where
  "autoMapHeader m0 hdr =
     (let lower = toLowerCase hdr
      in foldl (\<lambda>m step. step m) m0
           [assignIf map_timestamp
              (str_includes lower ''time'' \<or> str_includes lower ''date'' \<or>
               str_includes lower ''timestamp'')
              (\<lambda>m. m\<lparr>map_timestamp := hdr\<rparr>),
            assignIf map_rsrp
              (str_includes lower ''rsrp'' \<or>
               (str_includes lower ''signal'' \<and> str_includes lower ''strength''))
              (\<lambda>m. m\<lparr>map_rsrp := hdr\<rparr>),
            assignIf map_rsrq
              (str_includes lower ''rsrq'' \<or> str_includes lower ''quality'')
              (\<lambda>m. m\<lparr>map_rsrq := hdr\<rparr>),
            assignIf map_sinr
              (str_includes lower ''sinr'' \<or> str_includes lower ''snr'')
              (\<lambda>m. m\<lparr>map_sinr := hdr\<rparr>),
            assignIf map_technology
              (str_includes lower ''tech'' \<or> str_includes lower ''rat'' \<or>
               str_includes lower ''generation'' \<or> str_includes lower ''technology'')
              (\<lambda>m. m\<lparr>map_technology := hdr\<rparr>),
            assignIf map_location
              (str_includes lower ''location'' \<or> str_includes lower ''sector'' \<or>
               str_includes lower ''cell'' \<or> str_includes lower ''site'')
              (\<lambda>m. m\<lparr>map_location := hdr\<rparr>),
            assignIf map_throughput
              (str_includes lower ''throughput'' \<or> str_includes lower ''speed'' \<or>
               str_includes lower ''rate'' \<or> str_includes lower ''kbps'' \<or>
               str_includes lower ''mbps'')
              (\<lambda>m. m\<lparr>map_throughput := hdr\<rparr>)])"

text \<open>The mapping \<open>handleCsvUpload\<close> proposes for a header list.\<close>

definition autoMapping :: "string list \<Rightarrow> mapping" where
  "autoMapping headers =
     (let (latCol, lngCol) = detectCoordinateColumns headers;
          m1 = (case latCol of Some c \<Rightarrow> if c \<noteq> [] then emptyMapping\<lparr>map_latitude := c\<rparr>
                               else emptyMapping | None \<Rightarrow> emptyMapping);
          m2 = (case lngCol of Some c \<Rightarrow> if c \<noteq> [] then m1\<lparr>map_longitude := c\<rparr> else m1
                             | None \<Rightarrow> m1)
      in foldl autoMapHeader m2 headers)"

section \<open>Normalization\<close>

text \<open>
  A raw row maps the column names it has to cells; reading a column it does not have gives
  \<open>undefined\<close>.
\<close>

type_synonym row = "string \<rightharpoonup> jsval"

definition cell :: "row \<Rightarrow> string \<Rightarrow> jsval" where
  "cell r c = (case r c of None \<Rightarrow> Undefined | Some v \<Rightarrow> v)"

datatype tech = Tech4G | Tech5G

text \<open>
  The canonical record. \<open>timestamp\<close> is the time value that the ISO string of the source
  denotes, \<open>date\<close> the local day number that the label of \<open>toDateString()\<close> prints.
  \<open>originalRow\<close> is absent from the records of the demo generator.
\<close>

record measurement =
  timestamp :: int
  date :: int
  hour :: int
  day :: int
  rsrp :: number
  rsrq :: number
  sinr :: number
  signalClass :: nat
  technology :: tech
  location :: jsval
  throughput :: number
  lat :: number
  lon :: number
  originalRow :: "nat option"

definition centerLat :: real where
  "centerLat = - 26.2041"

definition centerLon :: real where
  "centerLon = 28.0473"

text \<open>
  The signal fields before rounding:
  \<^verbatim>\<open>
  const rsrp = mapping.rsrp && row[mapping.rsrp] !== undefined ?
    parseFloat(row[mapping.rsrp]) || -80 : -80;\<close>
\<close>

definition signalField :: "host \<Rightarrow> string \<Rightarrow> row \<Rightarrow> real \<Rightarrow> number" where
  "signalField h col r dflt =
     (if col \<noteq> [] \<and> cell r col \<noteq> Undefined
      then or_default (parseFloat h (cell r col)) (Fin dflt) else Fin dflt)"

definition resolveRsrp :: "host \<Rightarrow> mapping \<Rightarrow> row \<Rightarrow> number" where
  "resolveRsrp h m r = signalField h (map_rsrp m) r (- 80)"

definition resolveRsrq :: "host \<Rightarrow> mapping \<Rightarrow> row \<Rightarrow> number" where
  "resolveRsrq h m r = signalField h (map_rsrq m) r (- 10)"

definition resolveSinr :: "host \<Rightarrow> mapping \<Rightarrow> row \<Rightarrow> number" where
  "resolveSinr h m r = signalField h (map_sinr m) r 15"

text \<open>
  The throughput draws from \<open>Math.random()\<close> only when the default is needed; \<open>k\<close> counts
  the draws made so far, and the result carries the new count.
  \<^verbatim>\<open>
  const throughput = mapping.throughput && row[mapping.throughput] !== undefined ?
    parseFloat(row[mapping.throughput]) || (Math.random() * 100 + 50) :
    (Math.random() * 100 + 50);\<close>
\<close>

definition resolveThroughput :: "host \<Rightarrow> mapping \<Rightarrow> row \<Rightarrow> nat \<Rightarrow> number \<times> nat" where
  "resolveThroughput h m r k =
     (if map_throughput m \<noteq> [] \<and> cell r (map_throughput m) \<noteq> Undefined
      then (let p = parseFloat h (cell r (map_throughput m))
            in if falsy_num p then (Fin (random h k * 100 + 50), Suc k) else (p, k))
      else (Fin (random h k * 100 + 50), Suc k))"

definition resolveTimestamp :: "host \<Rightarrow> mapping \<Rightarrow> row \<Rightarrow> nat \<Rightarrow> int" where
  "resolveTimestamp h m r index =
     (if map_timestamp m \<noteq> [] \<and> truthy (cell r (map_timestamp m))
      then (case new_Date h (cell r (map_timestamp m)) of
              Some t \<Rightarrow> t
            | None \<Rightarrow> fallbackTimestamp h index)
      else fallbackTimestamp h index)"

definition resolveTechnology :: "host \<Rightarrow> mapping \<Rightarrow> row \<Rightarrow> tech" where
  "resolveTechnology h m r =
     (if map_technology m \<noteq> [] \<and> truthy (cell r (map_technology m))
      then (let techValue = toLowerCase (toString h (cell r (map_technology m)))
            in if str_includes techValue ''5g'' \<or> str_includes techValue ''nr'' \<or>
                  str_includes techValue ''new''
               then Tech5G else Tech4G)
      else Tech4G)"

definition resolveLocation :: "mapping \<Rightarrow> row \<Rightarrow> nat \<Rightarrow> jsval" where
  "resolveLocation m r index =
     (if map_location m \<noteq> [] \<and> truthy (cell r (map_location m))
      then cell r (map_location m)
      else JStr (''Sector_'' @ nat_toString (index div 24 + 1)))"

text \<open>
  The coordinates read from the mapped columns; \<open>None\<close> is the \<open>null\<close> both variables keep
  when the columns are unmapped, the cells missing or the pair invalid.
\<close>

definition mappedCoordinates :: "host \<Rightarrow> mapping \<Rightarrow> row \<Rightarrow> number option \<times> number option" where
  "mappedCoordinates h m r =
     (if map_latitude m \<noteq> [] \<and> map_longitude m \<noteq> [] \<and>
         cell r (map_latitude m) \<noteq> Undefined \<and> cell r (map_longitude m) \<noteq> Undefined
      then (let parsedLat = parseFloat h (cell r (map_latitude m));
                parsedLon = parseFloat h (cell r (map_longitude m))
            in if isValidCoordinate h (JNum parsedLat) (JNum parsedLon)
               then (Some parsedLat, Some parsedLon) else (None, None))
      else (None, None))"

text \<open>
  \<^verbatim>\<open>
  if (lat === null || lon === null) {
    const jitterA = (index % 100) / 1000;
    const jitterB = ((index * 7) % 100) / 1000;
    lat = centerLat + (Math.random() - 0.5) * 0.05 + jitterA;
    lon = centerLon + (Math.random() - 0.5) * 0.07 + jitterB;
  }\<close>
\<close>

definition resolveCoordinates ::
  "host \<Rightarrow> mapping \<Rightarrow> row \<Rightarrow> nat \<Rightarrow> nat \<Rightarrow> (number \<times> number) \<times> nat" where
  "resolveCoordinates h m r index k =
     (case mappedCoordinates h m r of
        (Some la, Some lo) \<Rightarrow> ((la, lo), k)
      | _ \<Rightarrow>
          (let jitterA = real (index mod 100) / 1000;
               jitterB = real ((index * 7) mod 100) / 1000
           in ((Fin (centerLat + (random h k - 0.5) * 0.05 + jitterA),
                Fin (centerLon + (random h (Suc k) - 0.5) * 0.07 + jitterB)),
               Suc (Suc k))))"

text \<open>
  The callback of \<open>csvData.map\<close> in \<open>processCsvData\<close>: the record of one row, and the
  number of random draws made once the row is done.
\<close>

definition processRow :: "host \<Rightarrow> mapping \<Rightarrow> row \<Rightarrow> nat \<Rightarrow> nat \<Rightarrow> measurement \<times> nat" where
  "processRow h m r index k =
     (let ts = resolveTimestamp h m r index;
          rsrp0 = resolveRsrp h m r;
          rsrq0 = resolveRsrq h m r;
          sinr0 = resolveSinr h m r;
          (throughput0, k1) = resolveThroughput h m r k;
          tech0 = resolveTechnology h m r;
          ((lat0, lon0), k2) = resolveCoordinates h m r index k1
      in (\<lparr> timestamp = ts,
             date = Day (LocalTime h ts),
             hour = getHours h ts,
             day = getDate h ts,
             rsrp = toFixed1 rsrp0,
             rsrq = toFixed1 rsrq0,
             sinr = toFixed1 sinr0,
             signalClass = classify rsrp0,
             technology = tech0,
             location = resolveLocation m r index,
             throughput = toFixed1 throughput0,
             lat = lat0,
             lon = lon0,
             originalRow = Some index \<rparr>, k2))"

fun processRows :: "host \<Rightarrow> mapping \<Rightarrow> nat \<Rightarrow> nat \<Rightarrow> row list \<Rightarrow> measurement list" where
  "processRows h m index k [] = []"
| "processRows h m index k (r # rs) =
     (let (rec, k') = processRow h m r index k
      in rec # processRows h m (Suc index) k' rs)"

text \<open>\<open>processCsvData(csvData, mapping)\<close>; \<open>random h\<close> lists the draws made during the call.\<close>

definition processCsvData :: "host \<Rightarrow> row list \<Rightarrow> mapping \<Rightarrow> measurement list" where
  "processCsvData h csvData m = processRows h m 0 0 csvData"

section \<open>Ingestion\<close>

datatype source = Synthetic | Csv

datatype tech_filter = All | Only tech

text \<open>The state of the component that ingestion and the query engine read and write.\<close>

record app =
  data :: "measurement list"
  selectedTech :: tech_filter
  csvFile :: "string option"
  isLoading :: bool
  dataSource :: source
  error :: "string option"
  fieldMapping :: mapping

text \<open>
  What the CSV parser reports back: \<open>complete(results)\<close> with the rows of \<open>results.data\<close>
  (\<open>None\<close> when \<open>results.data\<close> is missing), or \<open>error(err)\<close> with a message.
\<close>

datatype parse_outcome = Complete "row list option" | ParseError string

text \<open>
  The \<open>try\<close> block of the \<open>complete\<close> callback; \<open>Inl\<close> carries the message of a thrown
  \<open>Error\<close>.
  \<^verbatim>\<open>
  if (!results.data || results.data.length === 0) throw new Error('No data found in CSV file');
  const processed = processCsvData(results.data, fieldMapping);
  if (processed.length === 0) throw new Error('No valid data could be processed from CSV');
  setData(processed); setDataSource('csv'); setError(null);\<close>
\<close>

definition tryIngest :: "host \<Rightarrow> app \<Rightarrow> row list option \<Rightarrow> string + app" where
  "tryIngest h st results_data =
     (case results_data of
        None \<Rightarrow> Inl ''No data found in CSV file''
      | Some rows \<Rightarrow>
          if length rows = 0 then Inl ''No data found in CSV file''
          else (let processed = processCsvData h rows (fieldMapping st)
                in if length processed = 0
                   then Inl ''No valid data could be processed from CSV''
                   else Inr (st\<lparr>data := processed, dataSource := Csv, error := None\<rparr>)))"

text \<open>
  The whole callback, with its \<open>catch\<close> and \<open>finally\<close>:
  \<^verbatim>\<open>
  } catch (err) {
    setError(`Failed to process CSV: ${err.message}`);
    setData([]);
  } finally { setIsLoading(false); }\<close>
\<close>

definition onComplete :: "host \<Rightarrow> app \<Rightarrow> row list option \<Rightarrow> app" where
  "onComplete h st results_data =
     (case tryIngest h st results_data of
        Inl message \<Rightarrow>
          st\<lparr>error := Some (''Failed to process CSV: '' @ message), data := [],
             isLoading := False\<rparr>
      | Inr st' \<Rightarrow> st'\<lparr>isLoading := False\<rparr>)"

definition onParseError :: "app \<Rightarrow> string \<Rightarrow> app" where
  "onParseError st message =
     st\<lparr>error := Some (''Failed to parse CSV file: '' @ message), isLoading := False\<rparr>"

text \<open>\<open>applyCsvData\<close>, run to the end of the parser's callback.\<close>

definition applyCsvData :: "host \<Rightarrow> app \<Rightarrow> parse_outcome \<Rightarrow> app" where
  "applyCsvData h st outcome =
     (if csvFile st = None then st
      else (let st1 = st\<lparr>isLoading := True, error := None\<rparr>
            in case outcome of
                 Complete results_data \<Rightarrow> onComplete h st1 results_data
               | ParseError message \<Rightarrow> onParseError st1 message))"

section \<open>Aggregation helpers\<close>

text \<open>\<open>arr.map(x => Number(x[key])).filter(v => Number.isFinite(v))\<close> on a numeric field.\<close>

definition finiteVals :: "(measurement \<Rightarrow> number) \<Rightarrow> measurement list \<Rightarrow> real list" where
  "finiteVals key arr = List.map_filter (\<lambda>x. case key x of Fin v \<Rightarrow> Some v | _ \<Rightarrow> None) arr"

definition avg :: "measurement list \<Rightarrow> (measurement \<Rightarrow> number) \<Rightarrow> real" where
  "avg arr key =
     (let vals = finiteVals key arr
      in if length vals = 0 then 0 else sum_list vals / real (length vals))"

text \<open>\<open>Math.round\<close> rounds half up.\<close>

definition Math_round :: "real \<Rightarrow> int" where
  "Math_round x = \<lfloor>x + 1 / 2\<rfloor>"

text \<open>
  \<^verbatim>\<open>
  const vals = arr.map(x => Number(x[key])).filter(Number.isFinite).sort((a, b) => a - b);
  if (!vals.length) return 0;
  const idx = Math.min(vals.length - 1, Math.max(0, Math.round((p / 100) * (vals.length - 1))));
  return vals[idx];\<close>
\<close>

definition percentile :: "measurement list \<Rightarrow> (measurement \<Rightarrow> number) \<Rightarrow> int \<Rightarrow> real" where
  "percentile arr key p =
     (let vals = sort (finiteVals key arr)
      in if length vals = 0 then 0
         else (let idx = min (int (length vals) - 1)
                           (max 0 (Math_round ((real_of_int p / 100) * (real (length vals) - 1))))
               in vals ! nat idx))"

datatype js_error = TypeError

text \<open>
  The names every plain object inherits from \<open>Object.prototype\<close>. In
  \<open>(m[k] = m[k] || []).push(r)\<close> the read of such a \<open>k\<close> on the fresh object \<open>{}\<close> finds the
  inherited member, which is truthy and has no \<open>push\<close>: the call throws a \<open>TypeError\<close>.
\<close>

definition objectPrototypeKeys :: "string list" where
  "objectPrototypeKeys = [''constructor'', ''__defineGetter__'', ''__defineSetter__'',
     ''hasOwnProperty'', ''__lookupGetter__'', ''__lookupSetter__'', ''isPrototypeOf'',
     ''propertyIsEnumerable'', ''toString'', ''valueOf'', ''__proto__'', ''toLocaleString'']"

text \<open>The property key of a record's location: \<open>r[key] ?? 'Unknown'\<close>, as a string.\<close>

definition locationKey :: "host \<Rightarrow> measurement \<Rightarrow> string" where
  "locationKey h r =
     (if location r = Undefined \<or> location r = Null then ''Unknown''
      else toString h (location r))"

fun pushTo :: "string \<Rightarrow> 'a \<Rightarrow> (string \<times> 'a list) list \<Rightarrow> (string \<times> 'a list) list" where
  "pushTo k r [] = [(k, [r])]"
| "pushTo k r ((k', rs) # m) = (if k = k' then (k', rs @ [r]) # m else (k', rs) # pushTo k r m)"

text \<open>
  \<open>groupBy(arr, 'location')\<close>: the groups in the order their keys were created.
  \<^verbatim>\<open>
  return arr.reduce((m, r) => {
    const k = r[key] ?? 'Unknown';
    (m[k] = m[k] || []).push(r);
    return m;
  }, {});\<close>
\<close>

fun groupByFrom ::
  "host \<Rightarrow> (string \<times> measurement list) list \<Rightarrow> measurement list
     \<Rightarrow> js_error + (string \<times> measurement list) list" where
  "groupByFrom h m [] = Inr m"
| "groupByFrom h m (r # arr) =
     (let k = locationKey h r
      in if k \<in> set objectPrototypeKeys then Inl TypeError
         else groupByFrom h (pushTo k r m) arr)"

definition groupBy :: "host \<Rightarrow> measurement list \<Rightarrow> js_error + (string \<times> measurement list) list" where
  "groupBy h arr = groupByFrom h [] arr"

definition digits_val :: "string \<Rightarrow> nat" where
  "digits_val s = foldl (\<lambda>a c. 10 * a + (of_char c - 48)) 0 s"

text \<open>
  \<open>Object.entries\<close> lists the keys that are array indices first, in ascending numeric order,
  then the other keys in the order of their creation.
\<close>

definition isArrayIndex :: "string \<Rightarrow> bool" where
  "isArrayIndex k =
     (k \<noteq> [] \<and> list_all is_digit k \<and> (k = ''0'' \<or> \<not> startsWith k ''0'') \<and>
      digits_val k < 4294967295)"

definition Object_entries :: "(string \<times> 'a) list \<Rightarrow> (string \<times> 'a) list" where
  "Object_entries m =
     sort_key (\<lambda>e. digits_val (fst e)) (filter (\<lambda>e. isArrayIndex (fst e)) m) @
     filter (\<lambda>e. \<not> isArrayIndex (fst e)) m"

text \<open>Subtraction of numbers, and the test \<open>c > 0\<close> a sort makes on a comparator's result.\<close>

fun num_sub :: "number \<Rightarrow> number \<Rightarrow> number" where
  "num_sub (Fin a) (Fin b) = Fin (a - b)"
| "num_sub NaN _ = NaN"
| "num_sub _ NaN = NaN"
| "num_sub PosInf PosInf = NaN"
| "num_sub NegInf NegInf = NaN"
| "num_sub PosInf _ = PosInf"
| "num_sub NegInf _ = NegInf"
| "num_sub (Fin a) PosInf = NegInf"
| "num_sub (Fin a) NegInf = PosInf"

fun positive :: "number \<Rightarrow> bool" where
  "positive (Fin x) = (0 < x)"
| "positive PosInf = True"
| "positive _ = False"

text \<open>
  \<open>arr.sort(cmp)\<close> as a stable insertion sort. Every stable sort returns this list when the
  comparator is consistent; when it is not (NaN among the keys) the order is up to the host.
\<close>

fun insertBy :: "('a \<Rightarrow> 'a \<Rightarrow> number) \<Rightarrow> 'a \<Rightarrow> 'a list \<Rightarrow> 'a list" where
  "insertBy cmp x [] = [x]"
| "insertBy cmp x (y # ys) = (if positive (cmp x y) then y # insertBy cmp x ys else x # y # ys)"

definition sortBy :: "('a \<Rightarrow> 'a \<Rightarrow> number) \<Rightarrow> 'a list \<Rightarrow> 'a list" where
  "sortBy cmp xs = foldr (insertBy cmp) xs []"

section \<open>Regular expressions\<close>

text \<open>
  The fragment of JavaScript's regular expressions that the query engine uses: literals, a
  greedy quantifier on a character class (\<open>\d\<close>, \<open>\s\<close>, \<open>.\<close>), capturing groups,
  sequence, alternation, a greedy optional part and the word boundary \<open>\b\<close>.
\<close>

datatype cclass = Digit | Space | Dot

datatype rx =
    Lit string
  | Rep cclass nat "nat option"
  | Group rx
  | Seq rx rx
  | Alt rx rx
  | Opt rx
  | WordB

definition is_space :: "char \<Rightarrow> bool" where
  "is_space c = ((of_char c :: nat) \<in> {9, 10, 11, 12, 13, 32, 160})"

definition is_word :: "char \<Rightarrow> bool" where
  "is_word c =
     (let n = (of_char c :: nat)
      in (48 \<le> n \<and> n \<le> 57) \<or> (65 \<le> n \<and> n \<le> 90) \<or> n = 95 \<or> (97 \<le> n \<and> n \<le> 122))"

fun in_class :: "cclass \<Rightarrow> char \<Rightarrow> bool" where
  "in_class Digit c = is_digit c"
| "in_class Space c = is_space c"
| "in_class Dot c = ((of_char c :: nat) \<notin> {10, 13})"

text \<open>
  A matcher state is the character before the current position (if any), the rest of the
  input, and the captures made so far. \<open>run\<close> lists the states in which a match of the
  expression can end, in the order backtracking tries them: the first is the one taken.
  The groups of every expression below are neither nested nor optional, so the captures come
  out in the order of the groups.
\<close>

type_synonym mstate = "char option \<times> string \<times> string list"

fun run :: "rx \<Rightarrow> mstate \<Rightarrow> mstate list" where
  "run (Lit w) (p, s, cs) =
     (if startsWith s w then [(if w = [] then p else Some (last w), drop (length w) s, cs)]
      else [])"
| "run (Rep c lo hi) (p, s, cs) =
     (let n = length (takeWhile (in_class c) s);
          n' = (case hi of None \<Rightarrow> n | Some m \<Rightarrow> min n m)
      in map (\<lambda>j. (if j = 0 then p else Some (s ! (j - 1)), drop j s, cs)) (rev [lo ..< Suc n']))"
| "run (Group r) (p, s, cs) =
     map (\<lambda>(p', s', cs'). (p', s', cs' @ [take (length s - length s') s])) (run r (p, s, cs))"
| "run (Seq a b) st = concat (map (run b) (run a st))"
| "run (Alt a b) st = run a st @ run b st"
| "run (Opt r) st = run r st @ [st]"
| "run WordB (p, s, cs) =
     (let word_before = (case p of None \<Rightarrow> False | Some c \<Rightarrow> is_word c);
          word_after = (case s of [] \<Rightarrow> False | c # _ \<Rightarrow> is_word c)
      in if word_before \<noteq> word_after then [(p, s, cs)] else [])"

text \<open>
  \<open>s.match(r)\<close> for an expression without the \<open>g\<close> flag: the leftmost match, as the array
  of the matched text followed by the captures, or \<open>None\<close> for \<open>null\<close>.
\<close>

fun search :: "rx \<Rightarrow> char option \<Rightarrow> string \<Rightarrow> string list option" where
  "search r p [] =
     (case run r (p, [], []) of
        [] \<Rightarrow> None
      | (p', s', cs) # _ \<Rightarrow> Some ([] # cs))"
| "search r p (c # s) =
     (case run r (p, c # s, []) of
        [] \<Rightarrow> search r (Some c) s
      | (p', s', cs) # _ \<Rightarrow> Some (take (length (c # s) - length s') (c # s) # cs))"

definition str_match :: "string \<Rightarrow> rx \<Rightarrow> string list option" where
  "str_match s r = search r None s"

text \<open>\<open>arr[i]\<close> on an array of strings: \<open>undefined\<close> past the end.\<close>

definition at_index :: "string list \<Rightarrow> nat \<Rightarrow> jsval" where
  "at_index arr i = (if i < length arr then JStr (arr ! i) else Undefined)"

fun seqs :: "rx list \<Rightarrow> rx" where
  "seqs [] = Lit []"
| "seqs [r] = r"
| "seqs (r # rs) = Seq r (seqs rs)"

text \<open>\<^verbatim>\<open>/between\s+(\d{1,2})\s*(?:and|-|to)\s*(\d{1,2})/\<close>\<close>

definition hourRangeRx :: rx where
  "hourRangeRx = seqs [Lit ''between'', Rep Space 1 None, Group (Rep Digit 1 (Some 2)),
     Rep Space 0 None, Alt (Lit ''and'') (Alt (Lit ''-'') (Lit ''to'')), Rep Space 0 None,
     Group (Rep Digit 1 (Some 2))]"

text \<open>\<^verbatim>\<open>/\b(?:hour|at)\s*(\d{1,2})\b/\<close>\<close>

definition atHourRx :: rx where
  "atHourRx = seqs [WordB, Alt (Lit ''hour'') (Lit ''at''), Rep Space 0 None,
     Group (Rep Digit 1 (Some 2)), WordB]"

text \<open>\<^verbatim>\<open>/\baug(?:ust)?\s*(\d{1,2})\b/\<close>\<close>

definition dayRx :: rx where
  "dayRx = seqs [WordB, Lit ''aug'', Opt (Lit ''ust''), Rep Space 0 None,
     Group (Rep Digit 1 (Some 2)), WordB]"

text \<open>\<^verbatim>\<open>/top\s*\d+\s*sectors?.*throughput/\<close> and \<^verbatim>\<open>/top\s*(\d+)/\<close>\<close>

definition topSectorsRx :: rx where
  "topSectorsRx = seqs [Lit ''top'', Rep Space 0 None, Rep Digit 1 None, Rep Space 0 None,
     Lit ''sector'', Opt (Lit ''s''), Rep Dot 0 None, Lit ''throughput'']"

definition topNRx :: rx where
  "topNRx = seqs [Lit ''top'', Rep Space 0 None, Group (Rep Digit 1 None)]"

text \<open>\<^verbatim>\<open>/bottom\s*\d+\s*sectors?.*throughput/\<close> and \<^verbatim>\<open>/bottom\s*(\d+)/\<close>\<close>

definition bottomSectorsRx :: rx where
  "bottomSectorsRx = seqs [Lit ''bottom'', Rep Space 0 None, Rep Digit 1 None, Rep Space 0 None,
     Lit ''sector'', Opt (Lit ''s''), Rep Dot 0 None, Lit ''throughput'']"

definition bottomNRx :: rx where
  "bottomNRx = seqs [Lit ''bottom'', Rep Space 0 None, Group (Rep Digit 1 None)]"

text \<open>\<^verbatim>\<open>/(\d{1,2})\s*th\s*percentile/\<close>\<close>

definition percentileRx :: rx where
  "percentileRx = seqs [Group (Rep Digit 1 (Some 2)), Rep Space 0 None, Lit ''th'',
     Rep Space 0 None, Lit ''percentile'']"

section \<open>The query engine\<close>

text \<open>
  An answer is the message \<open>askLocalAI\<close> returns, with the numbers it prints kept as
  numbers: the digits \<open>toFixed\<close> and \<open>toLocaleString\<close> produce are a matter of presentation.
\<close>

datatype answer =
    NoMatchingRows
  | DetectedColumns string
  | CountAnswer nat
  | AverageThroughput real nat
  | AverageRSRP real
  | AverageRSRQ real
  | AverageSINR real
  | Class1Coverage real nat nat
  | TopSectors "(string \<times> real) list"
  | BottomSectors "(string \<times> real) list"
  | PercentileThroughput int real
  | WorstRSRP number string int
  | Summary nat real real real real real

fun join :: "string \<Rightarrow> string list \<Rightarrow> string" where
  "join sep [] = []"
| "join sep [x] = x"
| "join sep (x # xs) = x @ sep @ join sep xs"

text \<open>\<open>summarizeColumns(sampleRow)\<close>, on the first record of the dataset if there is one.\<close>

definition summarizeColumns :: "measurement option \<Rightarrow> string" where
  "summarizeColumns sampleRow =
     (case sampleRow of
        None \<Rightarrow> ''No columns detected.''
      | Some r \<Rightarrow>
          join '', '' ([''timestamp'', ''date'', ''hour'', ''day'', ''rsrp'', ''rsrq'', ''sinr'',
            ''signalClass'', ''technology'', ''location'', ''throughput'', ''lat'', ''lon''] @
            (if originalRow r = None then [] else [''originalRow''])))"

definition first :: "'a list \<Rightarrow> 'a option" where
  "first xs = (case xs of [] \<Rightarrow> None | x # _ \<Rightarrow> Some x)"

text \<open>
  \<^verbatim>\<open>
  const filteredData = useMemo(() => {
    if (!data || !Array.isArray(data)) return [];
    return data.filter(item => selectedTech === 'All' || item.technology === selectedTech);
  }, [data, selectedTech]);\<close>
\<close>

definition filteredData :: "app \<Rightarrow> measurement list" where
  "filteredData st =
     filter (\<lambda>item. selectedTech st = All \<or> Only (technology item) = selectedTech st) (data st)"

text \<open>The technology filter of a question \<open>q\<close> (already in lower case).\<close>

definition techSubset :: "app \<Rightarrow> string \<Rightarrow> measurement list" where
  "techSubset st q =
     (if str_includes q '' 5g'' \<or> startsWith q ''5g'' \<or> str_includes q '' nr''
      then filter (\<lambda>r. technology r = Tech5G) (data st)
      else if str_includes q '' 4g'' \<or> startsWith q ''4g'' \<or> str_includes q '' lte''
      then filter (\<lambda>r. technology r = Tech4G) (data st)
      else if selectedTech st \<noteq> All then filteredData st
      else data st)"

text \<open>
  \<^verbatim>\<open>
  const hourRange = q.match(/between\s+(\d{1,2})\s*(?:and|-|to)\s*(\d{1,2})/);
  if (hourRange) {
    const h1 = clampInt(hourRange[1], 0, 23);
    const h2 = clampInt(hourRange[2], 0, 23);
    const [lo, hi] = h1 <= h2 ? [h1, h2] : [h2, h1];
    subset = subset.filter(r => r.hour >= lo && r.hour <= hi);
  } else {
    const atHour = q.match(/\b(?:hour|at)\s*(\d{1,2})\b/);
    if (atHour) {
      const h = clampInt(atHour[1], 0, 23);
      subset = subset.filter(r => r.hour === h);
    }
  }\<close>
\<close>

definition hourSubset :: "host \<Rightarrow> string \<Rightarrow> measurement list \<Rightarrow> measurement list" where
  "hourSubset h q subs =
     (case str_match q hourRangeRx of
        Some hourRange \<Rightarrow>
          (let h1 = clampInt h (at_index hourRange 1) 0 23;
               h2 = clampInt h (at_index hourRange 2) 0 23;
               (lo, hi) = (if h1 \<le> h2 then (h1, h2) else (h2, h1))
           in filter (\<lambda>r. lo \<le> hour r \<and> hour r \<le> hi) subs)
      | None \<Rightarrow>
          (case str_match q atHourRx of
             Some atHour \<Rightarrow>
               (let hr = clampInt h (at_index atHour 1) 0 23
                in filter (\<lambda>r. hour r = hr) subs)
           | None \<Rightarrow> subs))"

text \<open>
  \<^verbatim>\<open>
  const dayMatch = q.match(/\baug(?:ust)?\s*(\d{1,2})\b/);
  if (dayMatch) {
    const d = clampInt(dayMatch[1], 1, 31);
    subset = subset.filter(r => r.day === d);
  }\<close>
\<close>

definition daySubset :: "host \<Rightarrow> string \<Rightarrow> measurement list \<Rightarrow> measurement list" where
  "daySubset h q subs =
     (case str_match q dayRx of
        Some dayMatch \<Rightarrow>
          (let d = clampInt h (at_index dayMatch 1) 1 31
           in filter (\<lambda>r. day r = d) subs)
      | None \<Rightarrow> subs)"

text \<open>The subset a question selects: technology, then hour, then day.\<close>

definition questionSubset :: "host \<Rightarrow> app \<Rightarrow> string \<Rightarrow> measurement list" where
  "questionSubset h st q = daySubset h q (hourSubset h q (techSubset st q))"

text \<open>
  The ranking of the two sector intents: the groups of \<open>groupBy\<close> as \<open>Object.entries\<close>
  lists them, each with its mean throughput, sorted by the comparator and cut to \<open>k\<close>.
\<close>

definition sectorRanking ::
  "host \<Rightarrow> measurement list \<Rightarrow> (real \<Rightarrow> real \<Rightarrow> real) \<Rightarrow> int
     \<Rightarrow> js_error + (string \<times> real) list" where
  "sectorRanking h subs cmp k =
     (case groupBy h subs of
        Inl e \<Rightarrow> Inl e
      | Inr byLoc \<Rightarrow>
          Inr (take (nat k)
                 (sortBy (\<lambda>a b. Fin (cmp (snd a) (snd b)))
                    (map (\<lambda>(loc, rows). (loc, avg rows throughput)) (Object_entries byLoc)))))"

text \<open>
  The record \<open>[...subset].sort((a, b) => a.rsrp - b.rsrp)[0]\<close>; reading a field of the
  \<open>undefined\<close> that an empty array yields would throw.
\<close>

definition worstRsrp :: "measurement list \<Rightarrow> js_error + measurement" where
  "worstRsrp subs =
     (case sortBy (\<lambda>a b. num_sub (rsrp a) (rsrp b)) subs of
        [] \<Rightarrow> Inl TypeError
      | worst # _ \<Rightarrow> Inr worst)"

text \<open>The intents, tried in the order of the source on a non-empty subset.\<close>

definition dispatch :: "host \<Rightarrow> app \<Rightarrow> string \<Rightarrow> measurement list \<Rightarrow> js_error + answer" where
  "dispatch h st q subs =
     (if str_includes q ''columns'' \<or> str_includes q ''schema'' \<or> str_includes q ''headers''
      then Inr (DetectedColumns (summarizeColumns (first (data st))))
      else if str_includes q ''count'' \<or> str_includes q ''how many'' \<or>
              str_includes q ''rows'' \<or> str_includes q ''measurements''
      then Inr (CountAnswer (length subs))
      else if str_includes q ''average throughput'' \<or> str_includes q ''avg throughput'' \<or>
              str_includes q ''throughput mean''
      then Inr (AverageThroughput (avg subs throughput) (length subs))
      else if str_includes q ''average rsrp'' \<or> str_includes q ''avg rsrp''
      then Inr (AverageRSRP (avg subs rsrp))
      else if str_includes q ''average rsrq'' \<or> str_includes q ''avg rsrq''
      then Inr (AverageRSRQ (avg subs rsrq))
      else if str_includes q ''average sinr'' \<or> str_includes q ''avg sinr''
      then Inr (AverageSINR (avg subs sinr))
      else if str_includes q ''class 1'' \<and>
              (str_includes q ''percent'' \<or> str_includes q ''coverage'' \<or>
               str_includes q ''share'')
      then (let c1 = length (filter (\<lambda>r. signalClass r = 1) subs)
            in Inr (Class1Coverage (real c1 / real (length subs) * 100) c1 (length subs)))
      else if str_match q topSectorsRx \<noteq> None
      then (let k = clampInt h
                      (at_index (case str_match q topNRx of Some a \<Rightarrow> a | None \<Rightarrow> [''5'']) 1)
                      1 50
            in case sectorRanking h subs (\<lambda>a b. b - a) k of
                 Inl e \<Rightarrow> Inl e
               | Inr rows \<Rightarrow> Inr (TopSectors rows))
      else if str_match q bottomSectorsRx \<noteq> None
      then (let k = clampInt h
                      (at_index (case str_match q bottomNRx of Some a \<Rightarrow> a | None \<Rightarrow> [''5'']) 1)
                      1 50
            in case sectorRanking h subs (\<lambda>a b. a - b) k of
                 Inl e \<Rightarrow> Inl e
               | Inr rows \<Rightarrow> Inr (BottomSectors rows))
      else if str_includes q ''percentile'' \<and> str_includes q ''throughput''
      then (let p = clampInt h
                      (at_index
                         (case str_match q percentileRx of Some a \<Rightarrow> a | None \<Rightarrow> [''95'']) 1)
                      1 99
            in Inr (PercentileThroughput p (percentile subs throughput p)))
      else if str_includes q ''worst rsrp'' \<or> str_includes q ''lowest rsrp''
      then (case worstRsrp subs of
              Inl e \<Rightarrow> Inl e
            | Inr worst \<Rightarrow>
                Inr (WorstRSRP (rsrp worst) (toString h (location worst)) (timestamp worst)))
      else (let mbps = avg subs throughput;
                c1 = length (filter (\<lambda>r. signalClass r = 1) subs)
            in Inr (Summary (length subs) mbps (avg subs rsrp) (avg subs rsrq)
                      (avg subs sinr) (real c1 / real (length subs) * 100))))"

text \<open>
  \<open>askLocalAI(question)\<close>: \<open>Inl\<close> is an exception that leaves the function, \<open>Inr\<close> the
  answer it returns.
\<close>

definition askLocalAI :: "host \<Rightarrow> app \<Rightarrow> string \<Rightarrow> js_error + answer" where
  "askLocalAI h st question =
     (let q = toLowerCase question;
          subs = questionSubset h st q
      in if length subs = 0 then Inr NoMatchingRows
         else dispatch h st q subs)"

section \<open>An example host\<close>

text \<open>
  One concrete host, for running the model on concrete inputs. It reads decimal literals,
  prints numbers in positional decimal notation, reads the date-time forms
  \<open>YYYY-MM-DD\<close> and \<open>YYYY-MM-DDTHH:mm:ssZ\<close> and takes every other string for an invalid
  date, keeps a fixed offset from UTC, and cycles \<open>Math.random()\<close> through the tenths.
\<close>

definition signOf :: "string \<Rightarrow> bool \<times> string" where
  "signOf s =
     (case s of
        [] \<Rightarrow> (False, [])
      | c # r \<Rightarrow> if c = CHR ''-'' then (True, r) else if c = CHR ''+'' then (False, r)
                 else (False, s))"

text \<open>The exponent part at the head of a string, and what follows it.\<close>

definition exponentOf :: "string \<Rightarrow> int \<times> string" where
  "exponentOf s =
     (case s of
        [] \<Rightarrow> (0, s)
      | c # r \<Rightarrow>
          if c = CHR ''e'' \<or> c = CHR ''E''
          then (let (neg, r') = signOf r; ds = takeWhile is_digit r'
                in if ds = [] then (0, s)
                   else ((if neg then - int (digits_val ds) else int (digits_val ds)),
                         dropWhile is_digit r'))
          else (0, s))"

text \<open>The value of the longest decimal literal at the head of a string, and the rest.\<close>

definition decimalPrefix :: "string \<Rightarrow> number \<times> string" where
  "decimalPrefix s =
     (let (neg, s1) = signOf s
      in if startsWith s1 ''Infinity'' then ((if neg then NegInf else PosInf), drop 8 s1)
         else (let ip = takeWhile is_digit s1;
                   r1 = dropWhile is_digit s1;
                   dot = (case r1 of [] \<Rightarrow> False | c # _ \<Rightarrow> c = CHR ''.'');
                   fp = (if dot then takeWhile is_digit (tl r1) else []);
                   r2 = (if dot then dropWhile is_digit (tl r1) else r1)
               in if ip = [] \<and> fp = [] then (NaN, s)
                  else (let (ex, r3) = exponentOf r2;
                            mant = real (digits_val ip) + real (digits_val fp) / 10 ^ length fp;
                            v = (if 0 \<le> ex then mant * 10 ^ nat ex else mant / 10 ^ nat (- ex))
                        in (Fin (if neg then - v else v), r3))))"

definition example_parseFloat :: "string \<Rightarrow> number" where
  "example_parseFloat s = fst (decimalPrefix (dropWhile is_space s))"

definition example_toNumber :: "string \<Rightarrow> number" where
  "example_toNumber s =
     (let t = rev (dropWhile is_space (rev (dropWhile is_space s)))
      in if t = [] then Fin 0
         else (case decimalPrefix t of (v, []) \<Rightarrow> v | _ \<Rightarrow> NaN))"

text \<open>Up to \<open>fuel\<close> digits of the decimal fraction of \<open>x\<close>, for \<open>0 \<le> x < 1\<close>.\<close>

fun fractionDigits :: "nat \<Rightarrow> real \<Rightarrow> string" where
  "fractionDigits 0 x = []"
| "fractionDigits (Suc fuel) x =
     (if x = 0 then []
      else digit_char (nat \<lfloor>x * 10\<rfloor>) # fractionDigits fuel (x * 10 - of_int \<lfloor>x * 10\<rfloor>))"

definition example_numberToString :: "number \<Rightarrow> string" where
  "example_numberToString n =
     (case n of
        NaN \<Rightarrow> ''NaN''
      | PosInf \<Rightarrow> ''Infinity''
      | NegInf \<Rightarrow> ''-Infinity''
      | Fin x \<Rightarrow>
          (let a = \<bar>x\<bar>;
               ip = nat_toString (nat \<lfloor>a\<rfloor>);
               fp = fractionDigits 17 (a - of_int \<lfloor>a\<rfloor>)
           in (if x < 0 then ''-'' else []) @ ip @ (if fp = [] then [] else ''.'' @ fp)))"

definition twoDigits :: "char \<Rightarrow> char \<Rightarrow> int option" where
  "twoDigits a b = (if is_digit a \<and> is_digit b then Some (int (digits_val [a, b])) else None)"

definition isoDay :: "string \<Rightarrow> int option" where
  "isoDay s =
     (case s of
        [y1, y2, y3, y4, d1, m1, m2, d2, a1, a2] \<Rightarrow>
          if list_all is_digit [y1, y2, y3, y4] \<and> d1 = CHR ''-'' \<and> d2 = CHR ''-''
          then (case (twoDigits m1 m2, twoDigits a1 a2) of
                  (Some m, Some d) \<Rightarrow>
                    (let y = int (digits_val [y1, y2, y3, y4]); dn = day_of_civil y m d
                     in if 1 \<le> m \<and> m \<le> 12 \<and> civil_of_day dn = (y, m, d) then Some dn
                        else None)
                | _ \<Rightarrow> None)
          else None
      | _ \<Rightarrow> None)"

definition isoTime :: "string \<Rightarrow> int option" where
  "isoTime s =
     (case s of
        [t, h1, h2, c1, m1, m2, c2, s1, s2, z] \<Rightarrow>
          if t = CHR ''T'' \<and> c1 = CHR '':'' \<and> c2 = CHR '':'' \<and> z = CHR ''Z''
          then (case (twoDigits h1 h2, twoDigits m1 m2, twoDigits s1 s2) of
                  (Some hr, Some mn, Some sec) \<Rightarrow>
                    if hr \<le> 23 \<and> mn \<le> 59 \<and> sec \<le> 59 then Some (MakeTime hr mn sec 0)
                    else None
                | _ \<Rightarrow> None)
          else None
      | _ \<Rightarrow> None)"

definition example_dateParse :: "string \<Rightarrow> int option" where
  "example_dateParse s =
     (case isoDay (take 10 s) of
        None \<Rightarrow> None
      | Some dn \<Rightarrow>
          if length s = 10 then Some (MakeDate dn 0)
          else (case isoTime (drop 10 s) of
                  None \<Rightarrow> None
                | Some tm \<Rightarrow> Some (MakeDate dn tm)))"

definition example_dateToString :: "int \<Rightarrow> int option \<Rightarrow> string" where
  "example_dateToString tz d =
     (case d of
        None \<Rightarrow> ''Invalid Date''
      | Some t \<Rightarrow>
          (let (y, m, dm) = civil_of_day (Day (t + tz))
           in [''Sun'', ''Mon'', ''Tue'', ''Wed'', ''Thu'', ''Fri'', ''Sat'']
                ! nat ((Day (t + tz) + 4) mod 7) @ '' '' @
              [''Jan'', ''Feb'', ''Mar'', ''Apr'', ''May'', ''Jun'', ''Jul'', ''Aug'', ''Sep'',
               ''Oct'', ''Nov'', ''Dec''] ! nat (m - 1) @ '' '' @
              (if dm < 10 then ''0'' else []) @ nat_toString (nat dm) @ '' '' @
              nat_toString (nat y)))"

text \<open>The example host at \<open>tz\<close> milliseconds east of UTC.\<close>

definition example_host :: "int \<Rightarrow> host" where
  "example_host tz =
     \<lparr> parseFloat_str = example_parseFloat,
       toNumber_str = example_toNumber,
       number_toString = example_numberToString,
       date_parse = example_dateParse,
       date_toString = example_dateToString tz,
       localTZA = (\<lambda>t isUTC. tz),
       random = (\<lambda>k. real (k mod 10) / 10) \<rparr>"

section \<open>Populated records and sample inputs\<close>

text \<open>
  A record is populated when none of its numbers is NaN and its location and row ordinal are
  present (a location is present when it is truthy: not \<open>null\<close>, \<open>undefined\<close>, NaN or
  empty). Timestamp, hour, day, class and technology cannot be absent in a \<open>measurement\<close>.
\<close>

definition populated :: "measurement \<Rightarrow> bool" where
  "populated r =
     (rsrp r \<noteq> NaN \<and> rsrq r \<noteq> NaN \<and> sinr r \<noteq> NaN \<and> throughput r \<noteq> NaN \<and>
      lat r \<noteq> NaN \<and> lon r \<noteq> NaN \<and> truthy (location r) \<and> originalRow r \<noteq> None)"

text \<open>
  The row and the headers of the scenario
  \<open>[-26.1, 28.0, -65, "2025-08-01T05:00:00Z"]\<close> under \<open>["Lat", "Lon", "RSRP", "Date"]\<close>.
\<close>

definition scenarioA_row :: row where
  "scenarioA_row = [''Lat'' \<mapsto> JNum (Fin (- 26.1)), ''Lon'' \<mapsto> JNum (Fin 28.0),
     ''RSRP'' \<mapsto> JNum (Fin (- 65)), ''Date'' \<mapsto> JStr ''2025-08-01T05:00:00Z'']"

definition scenarioA_headers :: "string list" where
  "scenarioA_headers = [''Lat'', ''Lon'', ''RSRP'', ''Date'']"

text \<open>A record of the first of August 2025 with the given hour, throughput, RSRP, sector and technology.\<close>

definition sample :: "int \<Rightarrow> real \<Rightarrow> real \<Rightarrow> string \<Rightarrow> tech \<Rightarrow> measurement" where
  "sample hr thr rs loc tc =
     \<lparr> timestamp = startDate + hr * msPerHour, date = 20301, hour = hr, day = 1,
       rsrp = Fin rs, rsrq = Fin (- 10), sinr = Fin 15, signalClass = classify (Fin rs),
       technology = tc, location = JStr loc, throughput = Fin thr,
       lat = Fin (- 26.1), lon = Fin 28, originalRow = None \<rparr>"

text \<open>The component holding a dataset, with a file chosen and nothing else set.\<close>

definition sample_app :: "measurement list \<Rightarrow> app" where
  "sample_app ds =
     \<lparr> data = ds, selectedTech = All, csvFile = Some ''drive.csv'', isLoading = False,
       dataSource = Synthetic, error = None, fieldMapping = emptyMapping \<rparr>"

section \<open>Classification and coordinate validation\<close>

lemma num_ge_Fin [simp]: "num_ge (Fin a) (Fin b) = (b \<le> a)"
  by (simp add: num_ge_def)

text \<open>
  C7. The classification is total over the finite RSRP values (every one gets a class from 1
  to 4) and monotonic (a higher RSRP never gets a numerically larger class than a lower one),
  with the boundary values \<open>classify(-70.0) = 1\<close>, \<open>classify(-70.1) = 2\<close>,
  \<open>classify(-85.0) = 2\<close>, \<open>classify(-100.0) = 3\<close> and \<open>classify(-100.1) = 4\<close>.
\<close>

theorem classify_total_monotone:
  "classify (Fin x) \<in> {1, 2, 3, 4} \<and>
   (x \<le> y \<longrightarrow> classify (Fin y) \<le> classify (Fin x)) \<and>
   classify (Fin (- 70.0)) = 1 \<and> classify (Fin (- 70.1)) = 2 \<and>
   classify (Fin (- 85.0)) = 2 \<and> classify (Fin (- 100.0)) = 3 \<and>
   classify (Fin (- 100.1)) = 4"
  by (simp add: classify_def)

text \<open>C7 at \<open>-90 \<le> -60\<close>: class 3 below, class 1 above.\<close>

theorem classify_total_monotone_witness:
  "(- 90 :: real) \<le> - 60 \<and> classify (Fin (- 60)) \<le> classify (Fin (- 90)) \<and>
   classify (Fin (- 60)) = 1 \<and> classify (Fin (- 90)) = 3"
  using classify_total_monotone [of "- 90" "- 60"] by (simp add: classify_def)

text \<open>
  C4, as the source has it. \<open>isValidCoordinate(lat, lon)\<close> is true if and only if both values
  parse as finite numbers, \<open>lat\<close> is in [-90, 90], \<open>lon\<close> is in [-180, 180], and neither
  coordinate is exactly zero: the source tests \<open>latitude !== 0 && longitude !== 0\<close>, so a pair
  with a single zero coordinate is rejected along with the pair (0, 0).
\<close>

theorem isValidCoordinate_iff:
  "isValidCoordinate h la lo \<longleftrightarrow>
     (\<exists>x y. parseFloat h la = Fin x \<and> parseFloat h lo = Fin y \<and>
        - 90 \<le> x \<and> x \<le> 90 \<and> - 180 \<le> y \<and> y \<le> 180 \<and> x \<noteq> 0 \<and> y \<noteq> 0)"
  by (cases "parseFloat h la"; cases "parseFloat h lo")
     (auto simp: isValidCoordinate_def Let_def num_ge_def)

text \<open>
  C4 as stated fails: the pair \<open>lat = 0\<close>, \<open>lon = 28\<close>, which the claim names as valid, is
  not.
\<close>

theorem zero_latitude_counterexample:
  "\<not> isValidCoordinate (example_host 0) (JNum (Fin 0)) (JNum (Fin 28))"
  by (simp add: isValidCoordinate_def)

section \<open>Normalization: one record per row\<close>

lemma processRows_length: "length (processRows h m index k rs) = length rs"
  by (induction rs arbitrary: index k) (simp_all add: case_prod_beta Let_def)

lemma processRows_nth:
  "i < length rs \<Longrightarrow>
   \<exists>k'. processRows h m index k rs ! i = fst (processRow h m (rs ! i) (index + i) k')"
proof (induction rs arbitrary: index k i)
  case Nil
  then show ?case by simp
next
  case (Cons r rs)
  show ?case
  proof (cases i)
    case 0
    then show ?thesis by (auto simp: case_prod_beta Let_def)
  next
    case (Suc j)
    with Cons.prems have "j < length rs" by simp
    from Cons.IH [OF this, of "Suc index" "snd (processRow h m r index k)"]
    obtain k' where
      "processRows h m (Suc index) (snd (processRow h m r index k)) rs ! j =
       fst (processRow h m (rs ! j) (Suc index + j) k')" by blast
    with Suc show ?thesis by (auto simp: case_prod_beta Let_def)
  qed
qed

lemma processCsvData_nth:
  "i < length rows \<Longrightarrow> \<exists>k. processCsvData h rows m ! i = fst (processRow h m (rows ! i) i k)"
  using processRows_nth [of i rows h m 0 0] by (simp add: processCsvData_def)

lemma processRow_fields:
  "timestamp (fst (processRow h m r i k)) = resolveTimestamp h m r i"
  "hour (fst (processRow h m r i k)) = getHours h (resolveTimestamp h m r i)"
  "day (fst (processRow h m r i k)) = getDate h (resolveTimestamp h m r i)"
  "rsrp (fst (processRow h m r i k)) = toFixed1 (resolveRsrp h m r)"
  "rsrq (fst (processRow h m r i k)) = toFixed1 (resolveRsrq h m r)"
  "sinr (fst (processRow h m r i k)) = toFixed1 (resolveSinr h m r)"
  "signalClass (fst (processRow h m r i k)) = classify (resolveRsrp h m r)"
  "technology (fst (processRow h m r i k)) = resolveTechnology h m r"
  "location (fst (processRow h m r i k)) = resolveLocation m r i"
  "throughput (fst (processRow h m r i k)) = toFixed1 (fst (resolveThroughput h m r k))"
  "lat (fst (processRow h m r i k)) =
     fst (fst (resolveCoordinates h m r i (snd (resolveThroughput h m r k))))"
  "lon (fst (processRow h m r i k)) =
     snd (fst (resolveCoordinates h m r i (snd (resolveThroughput h m r k))))"
  "originalRow (fst (processRow h m r i k)) = Some i"
  by (simp_all add: processRow_def case_prod_beta Let_def)

lemma toFixed1_NaN [simp]: "toFixed1 v = NaN \<longleftrightarrow> v = NaN"
  by (cases v) simp_all

lemma signalField_not_NaN [simp]: "signalField h col r d \<noteq> NaN"
  by (simp add: signalField_def or_default_def falsy_num_def)

lemma resolveThroughput_not_NaN [simp]: "fst (resolveThroughput h m r k) \<noteq> NaN"
  by (simp add: resolveThroughput_def Let_def falsy_num_def)

lemma mappedCoordinates_cases:
  "mappedCoordinates h m r = (None, None) \<or>
   (\<exists>la lo. mappedCoordinates h m r = (Some la, Some lo) \<and>
      isValidCoordinate h (JNum la) (JNum lo))"
  by (simp add: mappedCoordinates_def Let_def)

lemma isValidCoordinate_not_NaN:
  "isValidCoordinate h (JNum la) (JNum lo) \<Longrightarrow> la \<noteq> NaN \<and> lo \<noteq> NaN"
  by (simp add: isValidCoordinate_def)

lemma resolveCoordinates_not_NaN:
  "fst (fst (resolveCoordinates h m r i k)) \<noteq> NaN \<and>
   snd (fst (resolveCoordinates h m r i k)) \<noteq> NaN"
  using mappedCoordinates_cases [of h m r]
  by (auto simp: resolveCoordinates_def Let_def dest: isValidCoordinate_not_NaN)

lemma jitter_latitude:
  "0 \<le> u \<Longrightarrow> u < 1 \<Longrightarrow> 0 \<le> j \<Longrightarrow> j < 100 \<Longrightarrow>
   - 90 \<le> centerLat + (u - 0.5) * 0.05 + j / 1000 \<and> centerLat + (u - 0.5) * 0.05 + j / 1000 < 0"
  by (simp add: centerLat_def field_simps)

lemma jitter_longitude:
  "0 \<le> u \<Longrightarrow> u < 1 \<Longrightarrow> 0 \<le> j \<Longrightarrow> j < 100 \<Longrightarrow>
   0 < centerLon + (u - 0.5) * 0.07 + j / 1000 \<and> centerLon + (u - 0.5) * 0.07 + j / 1000 \<le> 180"
  by (simp add: centerLon_def field_simps)

lemma fallback_latitude:
  assumes "0 \<le> u" and "u < 1"
  shows "- 90 \<le> centerLat + (u - 0.5) * 0.05 + real (i mod 100) / 1000"
    and "centerLat + (u - 0.5) * 0.05 + real (i mod 100) / 1000 < 0"
  using jitter_latitude [OF assms, of "real (i mod 100)"] by simp_all

lemma fallback_longitude:
  assumes "0 \<le> u" and "u < 1"
  shows "0 < centerLon + (u - 0.5) * 0.07 + real ((i * 7) mod 100) / 1000"
    and "centerLon + (u - 0.5) * 0.07 + real ((i * 7) mod 100) / 1000 \<le> 180"
  using jitter_longitude [OF assms, of "real ((i * 7) mod 100)"] by simp_all

lemma resolveCoordinates_valid:
  assumes "\<forall>k. 0 \<le> random h k \<and> random h k < 1"
  shows "isValidCoordinate h (JNum (fst (fst (resolveCoordinates h m r i k))))
           (JNum (snd (fst (resolveCoordinates h m r i k))))"
proof -
  consider "mappedCoordinates h m r = (None, None)"
    | la lo where "mappedCoordinates h m r = (Some la, Some lo)"
        and "isValidCoordinate h (JNum la) (JNum lo)"
    using mappedCoordinates_cases [of h m r] by blast
  then show ?thesis
  proof cases
    case 1
    from assms have u: "0 \<le> random h k" "random h k < 1"
      and v: "0 \<le> random h (Suc k)" "random h (Suc k) < 1" by simp_all
    from fallback_latitude [OF u, of i] fallback_longitude [OF v, of i] 1
    show ?thesis
      by (simp add: resolveCoordinates_def Let_def isValidCoordinate_def)
  next
    case 2
    then show ?thesis by (simp add: resolveCoordinates_def)
  qed
qed

lemma resolveLocation_truthy [simp]: "truthy (resolveLocation m r i)"
  by (simp add: resolveLocation_def)

lemma processRow_populated: "populated (fst (processRow h m r i k))"
  using resolveCoordinates_not_NaN [of h m r i "snd (resolveThroughput h m r k)"]
  by (simp add: populated_def processRow_fields resolveRsrp_def resolveRsrq_def resolveSinr_def)

text \<open>
  C8. For every sequence of N raw rows and every field mapping, normalization yields exactly N
  records, in the order of the rows (the record at position \<open>i\<close> is the one built from row
  \<open>i\<close> and carries \<open>i\<close> as its original row), each of them populated: no field is null or
  NaN. No row is dropped, whatever its cells hold.
\<close>

theorem normalize_keeps_every_row:
  "length (processCsvData h rows m) = length rows \<and>
   (\<forall>i < length rows.
      originalRow (processCsvData h rows m ! i) = Some i \<and>
      (\<exists>k. processCsvData h rows m ! i = fst (processRow h m (rows ! i) i k)) \<and>
      populated (processCsvData h rows m ! i))"
proof (intro conjI allI impI)
  show "length (processCsvData h rows m) = length rows"
    by (simp add: processCsvData_def processRows_length)
next
  fix i assume "i < length rows"
  then obtain k where k: "processCsvData h rows m ! i = fst (processRow h m (rows ! i) i k)"
    using processCsvData_nth by blast
  show "originalRow (processCsvData h rows m ! i) = Some i"
    by (simp add: k processRow_fields)
  show "\<exists>k. processCsvData h rows m ! i = fst (processRow h m (rows ! i) i k)"
    using k by blast
  show "populated (processCsvData h rows m ! i)"
    by (simp add: k processRow_populated)
qed

text \<open>C8 on two rows, the second of them empty: two records, the second populated.\<close>

theorem normalize_keeps_every_row_witness:
  "length (processCsvData (example_host 0) [scenarioA_row, Map.empty]
     (autoMapping scenarioA_headers)) = 2 \<and>
   originalRow (processCsvData (example_host 0) [scenarioA_row, Map.empty]
     (autoMapping scenarioA_headers) ! 1) = Some 1 \<and>
   populated (processCsvData (example_host 0) [scenarioA_row, Map.empty]
     (autoMapping scenarioA_headers) ! 1)"
  using normalize_keeps_every_row [of "example_host 0" "[scenarioA_row, Map.empty]"
      "autoMapping scenarioA_headers"]
  by simp

section \<open>Normalization: coordinates\<close>

text \<open>
  C9. Every record of a normalization has valid coordinates, whether they were read from the
  mapped columns or are the jittered fallback around the default centre. \<open>Math.random()\<close>
  returns values in [0, 1).
\<close>

theorem normalized_coordinates_valid:
  assumes "\<forall>k. 0 \<le> random h k \<and> random h k < 1" and "i < length rows"
  shows "isValidCoordinate h (JNum (lat (processCsvData h rows m ! i)))
           (JNum (lon (processCsvData h rows m ! i)))"
proof -
  from assms(2) obtain k where
    "processCsvData h rows m ! i = fst (processRow h m (rows ! i) i k)"
    using processCsvData_nth by blast
  then show ?thesis
    using resolveCoordinates_valid [OF assms(1)] by (simp add: processRow_fields)
qed

text \<open>C9 on the same two rows: the fallback coordinates of the empty row are valid.\<close>

theorem normalized_coordinates_valid_witness:
  "(\<forall>k. 0 \<le> random (example_host 0) k \<and> random (example_host 0) k < 1) \<and>
   1 < length [scenarioA_row, Map.empty] \<and>
   isValidCoordinate (example_host 0)
     (JNum (lat (processCsvData (example_host 0) [scenarioA_row, Map.empty]
        (autoMapping scenarioA_headers) ! 1)))
     (JNum (lon (processCsvData (example_host 0) [scenarioA_row, Map.empty]
        (autoMapping scenarioA_headers) ! 1)))"
proof -
  have a: "\<forall>k. 0 \<le> random (example_host 0) k \<and> random (example_host 0) k < 1"
    by (simp add: example_host_def)
  have b: "1 < length [scenarioA_row, Map.empty]" by simp
  from normalized_coordinates_valid [OF a b] a b show ?thesis by blast
qed

section \<open>Ingestion of an empty source\<close>

text \<open>
  C2, as the source has it. When ingestion fails because the raw row source is empty, the
  error is surfaced (the error state holds the message) and the dataset is replaced by the
  empty dataset: the \<open>catch\<close> block calls \<open>setData([])\<close>, so the dataset loaded before
  is discarded. The data source selection stays as it was.
\<close>

theorem empty_source_clears_dataset:
  assumes "csvFile st \<noteq> None" and "results_data = None \<or> results_data = Some []"
  shows "data (applyCsvData h st (Complete results_data)) = [] \<and>
         error (applyCsvData h st (Complete results_data)) =
           Some ''Failed to process CSV: No data found in CSV file'' \<and>
         dataSource (applyCsvData h st (Complete results_data)) = dataSource st"
  using assms by (auto simp: applyCsvData_def onComplete_def tryIngest_def Let_def)

text \<open>C2 (as the source has it) on a component that holds one record.\<close>

theorem empty_source_clears_dataset_witness:
  "csvFile (sample_app [sample 3 90 (- 60) ''A'' Tech5G]) \<noteq> None \<and>
   data (applyCsvData (example_host 0) (sample_app [sample 3 90 (- 60) ''A'' Tech5G])
           (Complete (Some []))) = [] \<and>
   error (applyCsvData (example_host 0) (sample_app [sample 3 90 (- 60) ''A'' Tech5G])
            (Complete (Some []))) =
     Some ''Failed to process CSV: No data found in CSV file''"
proof -
  have f: "csvFile (sample_app [sample 3 90 (- 60) ''A'' Tech5G]) \<noteq> None"
    by (simp add: sample_app_def)
  from empty_source_clears_dataset [OF f, of "Some []" "example_host 0"] f
  show ?thesis by simp
qed

text \<open>
  C2 as stated fails: after the failed ingestion the dataset is not the one loaded before.
\<close>

theorem previous_dataset_lost_counterexample:
  "data (applyCsvData (example_host 0) (sample_app [sample 3 90 (- 60) ''A'' Tech5G])
           (Complete (Some []))) \<noteq>
   data (sample_app [sample 3 90 (- 60) ''A'' Tech5G])"
  by (simp add: applyCsvData_def onComplete_def tryIngest_def sample_app_def)

section \<open>Signal class and stored RSRP\<close>

lemma round1_ge_iff:
  assumes "\<not> (b - 0.05 < x \<and> x < b)" and "b = of_int n / 10" and "b \<le> 0"
  shows "b \<le> round1 x \<longleftrightarrow> b \<le> x"
proof (cases "x < 0")
  case False
  then have "0 \<le> round1 x" by (simp add: round1_def)
  with False assms show ?thesis by simp
next
  case True
  define F where "F = \<lfloor>- x * 10 + 1 / 2\<rfloor>"
  have r: "round1 x = - (of_int F / 10)" using True by (simp add: round1_def F_def)
  have "b \<le> round1 x \<longleftrightarrow> of_int F \<le> (- of_int n :: real)"
    unfolding r assms(2) by auto
  also have "\<dots> \<longleftrightarrow> F \<le> - n"
    by (metis of_int_le_iff of_int_minus)
  also have "\<dots> \<longleftrightarrow> - x * 10 + 1 / 2 < of_int (- n) + 1"
    unfolding F_def by (simp add: floor_le_iff)
  also have "\<dots> \<longleftrightarrow> b - 0.05 < x"
    unfolding assms(2) by auto
  also have "\<dots> \<longleftrightarrow> b \<le> x"
    using assms(1) by auto
  finally show ?thesis .
qed

lemma round1_boundaries:
  assumes "\<not> (- 70.05 < x \<and> x < - 70)" and "\<not> (- 85.05 < x \<and> x < - 85)"
    and "\<not> (- 100.05 < x \<and> x < - 100)"
  shows "- 70 \<le> round1 x \<longleftrightarrow> - 70 \<le> x"
    and "- 85 \<le> round1 x \<longleftrightarrow> - 85 \<le> x"
    and "- 100 \<le> round1 x \<longleftrightarrow> - 100 \<le> x"
proof -
  have "\<not> (- 70 - 0.05 < x \<and> x < - 70)" using assms(1) by simp
  then show "- 70 \<le> round1 x \<longleftrightarrow> - 70 \<le> x"
    by (rule round1_ge_iff [where n = "- 700"]) simp_all
  have "\<not> (- 85 - 0.05 < x \<and> x < - 85)" using assms(2) by simp
  then show "- 85 \<le> round1 x \<longleftrightarrow> - 85 \<le> x"
    by (rule round1_ge_iff [where n = "- 850"]) simp_all
  have "\<not> (- 100 - 0.05 < x \<and> x < - 100)" using assms(3) by simp
  then show "- 100 \<le> round1 x \<longleftrightarrow> - 100 \<le> x"
    by (rule round1_ge_iff [where n = "- 1000"]) simp_all
qed


lemma classify_round1:
  assumes "\<not> (- 70.05 < x \<and> x < - 70)" and "\<not> (- 85.05 < x \<and> x < - 85)"
    and "\<not> (- 100.05 < x \<and> x < - 100)"
  shows "classify (Fin (round1 x)) = classify (Fin x)"
  unfolding classify_def num_ge_Fin round1_boundaries [OF assms] ..

lemma classify_toFixed1:
  assumes "\<And>x. v = Fin x \<Longrightarrow>
             \<not> (- 70.05 < x \<and> x < - 70) \<and> \<not> (- 85.05 < x \<and> x < - 85) \<and>
             \<not> (- 100.05 < x \<and> x < - 100)"
  shows "classify (toFixed1 v) = classify v"
proof (cases v)
  case (Fin x)
  with assms have "classify (Fin (round1 x)) = classify (Fin x)"
    by (intro classify_round1) blast+
  with Fin show ?thesis by simp
qed simp_all

text \<open>
  C3, as the source has it. The stored \<open>signalClass\<close> is the class of the record's RSRP
  as resolved, before that value is rounded to one decimal for storage. It equals the class of
  the stored (rounded) \<open>rsrp\<close> unless the resolved value lies less than 0.05 below one of
  the boundaries -70, -85 and -100, where rounding lifts the stored value onto the boundary.
\<close>

theorem signalClass_of_unrounded_rsrp:
  assumes "i < length rows"
  shows "signalClass (processCsvData h rows m ! i) = classify (resolveRsrp h m (rows ! i)) \<and>
         rsrp (processCsvData h rows m ! i) = toFixed1 (resolveRsrp h m (rows ! i)) \<and>
         ((\<forall>x. resolveRsrp h m (rows ! i) = Fin x \<longrightarrow>
              \<not> (- 70.05 < x \<and> x < - 70) \<and> \<not> (- 85.05 < x \<and> x < - 85) \<and>
              \<not> (- 100.05 < x \<and> x < - 100)) \<longrightarrow>
          signalClass (processCsvData h rows m ! i) =
            classify (rsrp (processCsvData h rows m ! i)))"
proof -
  from assms obtain k where
    k: "processCsvData h rows m ! i = fst (processRow h m (rows ! i) i k)"
    using processCsvData_nth by blast
  show ?thesis
    unfolding k processRow_fields by (auto intro: classify_toFixed1 [symmetric])
qed

text \<open>C3 (as the source has it) on the scenario row, whose RSRP is -65.\<close>

theorem signalClass_of_unrounded_rsrp_witness:
  "0 < length [scenarioA_row] \<and>
   resolveRsrp (example_host 0) (autoMapping scenarioA_headers) ([scenarioA_row] ! 0) =
     Fin (- 65) \<and>
   signalClass (processCsvData (example_host 0) [scenarioA_row]
     (autoMapping scenarioA_headers) ! 0) =
   classify (rsrp (processCsvData (example_host 0) [scenarioA_row]
     (autoMapping scenarioA_headers) ! 0))"
proof -
  have a: "0 < length [scenarioA_row]" by simp
  have b: "resolveRsrp (example_host 0) (autoMapping scenarioA_headers) ([scenarioA_row] ! 0) =
     Fin (- 65)" by code_simp
  have c: "\<forall>x. Fin (- 65) = Fin x \<longrightarrow>
              \<not> (- 70.05 < x \<and> x < - 70) \<and> \<not> (- 85.05 < x \<and> x < - 85) \<and>
              \<not> (- 100.05 < x \<and> x < - 100)" by auto
  from signalClass_of_unrounded_rsrp [OF a, of "example_host 0" "autoMapping scenarioA_headers",
      unfolded b] c
  have "signalClass (processCsvData (example_host 0) [scenarioA_row]
          (autoMapping scenarioA_headers) ! 0) =
        classify (rsrp (processCsvData (example_host 0) [scenarioA_row]
          (autoMapping scenarioA_headers) ! 0))" by blast
  with a b show ?thesis by blast
qed

text \<open>
  C3 as stated fails: a cell of -70.04 is classified 2 and stored as -70.0, whose class is 1.
\<close>

theorem stored_rsrp_class_counterexample:
  "map (\<lambda>r. (signalClass r, rsrp r, classify (rsrp r)))
     (processCsvData (example_host 0) [[''RSRP'' \<mapsto> JNum (Fin (- 70.04))]]
        (emptyMapping\<lparr>map_rsrp := ''RSRP''\<rparr>)) = [(2, Fin (- 70), 1)]"
  by code_simp

section \<open>Defaults of the signal fields\<close>

lemma signalField_keeps_nonzero:
  "col \<noteq> [] \<Longrightarrow> cell r col \<noteq> Undefined \<Longrightarrow> \<not> falsy_num (parseFloat h (cell r col)) \<Longrightarrow>
   signalField h col r d = parseFloat h (cell r col)"
  by (simp add: signalField_def or_default_def)

lemma signalField_zero_defaulted:
  "col \<noteq> [] \<Longrightarrow> cell r col \<noteq> Undefined \<Longrightarrow> parseFloat h (cell r col) = Fin 0 \<Longrightarrow>
   signalField h col r d = Fin d"
  by (simp add: signalField_def or_default_def falsy_num_def)

text \<open>
  C5 at a mapped SINR cell holding the number 0, a value that parses: the record stores the
  default 15 and not 0, because \<open>parseFloat(cell) || 15\<close> takes 0 for a missing value.
\<close>

theorem zero_sinr_replaced:
  "map sinr
     (processCsvData (example_host 0) [[''SINR'' \<mapsto> JNum (Fin 0)]]
        (emptyMapping\<lparr>map_sinr := ''SINR''\<rparr>)) = [Fin 15]"
  by code_simp

section \<open>The hour of a record\<close>

lemma resolveTimestamp_mapped:
  assumes "map_timestamp m \<noteq> []" and "truthy (cell r (map_timestamp m))"
    and "new_Date h (cell r (map_timestamp m)) = Some t"
  shows "resolveTimestamp h m r i = t"
  using assms by (simp add: resolveTimestamp_def)

lemma resolveTimestamp_absent:
  "map_timestamp m = [] \<or> \<not> truthy (cell r (map_timestamp m)) \<Longrightarrow>
   resolveTimestamp h m r i = fallbackTimestamp h i"
  by (auto simp: resolveTimestamp_def)

text \<open>
  C6, as the source has it. For every normalized record whose timestamp column is mapped and
  whose timestamp cell is present (truthy: the source tests
  \<open>mapping.timestamp && row[mapping.timestamp]\<close>, so an empty, null or numeric 0 cell counts
  as absent and gets the fallback timestamp) and parses to a valid date, the \<open>timestamp\<close>
  field is that date and the \<open>hour\<close> field is its hour in the local time of the host
  (\<open>getHours()\<close>); it is the UTC hour when the host's offset from UTC is zero. In
  particular, on a host at UTC, normalizing the single row
  \<open>[-26.1, 28.0, -65, "2025-08-01T05:00:00Z"]\<close> under the headers
  \<open>["Lat", "Lon", "RSRP", "Date"]\<close> yields a record with \<open>signalClass = 1\<close>,
  \<open>lat = -26.1\<close>, \<open>lon = 28.0\<close> and \<open>hour = 5\<close>.
\<close>

theorem hour_is_local_hour:
  assumes "i < length rows" and "map_timestamp m \<noteq> []"
    and "truthy (cell (rows ! i) (map_timestamp m))"
    and "new_Date h (cell (rows ! i) (map_timestamp m)) = Some t"
  shows "timestamp (processCsvData h rows m ! i) = t \<and>
         hour (processCsvData h rows m ! i) = HourFromTime (t + localTZA h t True) \<and>
         (localTZA h t True = 0 \<longrightarrow> hour (processCsvData h rows m ! i) = HourFromTime t) \<and>
         map (\<lambda>r. (signalClass r, lat r, lon r, hour r))
           (processCsvData (example_host 0) [scenarioA_row] (autoMapping scenarioA_headers)) =
         [(1, Fin (- 26.1), Fin 28.0, 5)]"
proof -
  from assms(1) obtain k where
    k: "processCsvData h rows m ! i = fst (processRow h m (rows ! i) i k)"
    using processCsvData_nth by blast
  have ts: "resolveTimestamp h m (rows ! i) i = t"
    using assms(2-4) by (rule resolveTimestamp_mapped)
  have general: "timestamp (processCsvData h rows m ! i) = t \<and>
         hour (processCsvData h rows m ! i) = HourFromTime (t + localTZA h t True) \<and>
         (localTZA h t True = 0 \<longrightarrow> hour (processCsvData h rows m ! i) = HourFromTime t)"
    by (simp add: k processRow_fields ts getHours_def LocalTime_def)
  have scenario: "map (\<lambda>r. (signalClass r, lat r, lon r, hour r))
           (processCsvData (example_host 0) [scenarioA_row] (autoMapping scenarioA_headers)) =
         [(1, Fin (- 26.1), Fin 28.0, 5)]"
    by code_simp
  from general scenario show ?thesis by blast
qed

text \<open>C6 (as the source has it) on the scenario row, on the host at UTC.\<close>

theorem hour_is_local_hour_witness:
  "0 < length [scenarioA_row] \<and>
   map_timestamp (autoMapping scenarioA_headers) \<noteq> [] \<and>
   truthy (cell ([scenarioA_row] ! 0) (map_timestamp (autoMapping scenarioA_headers))) \<and>
   new_Date (example_host 0)
     (cell ([scenarioA_row] ! 0) (map_timestamp (autoMapping scenarioA_headers))) =
     Some 1754024400000 \<and>
   hour (processCsvData (example_host 0) [scenarioA_row]
     (autoMapping scenarioA_headers) ! 0) = 5"
proof -
  have a: "0 < length [scenarioA_row]" by simp
  have b: "map_timestamp (autoMapping scenarioA_headers) \<noteq> []" by code_simp
  have c: "truthy (cell ([scenarioA_row] ! 0) (map_timestamp (autoMapping scenarioA_headers)))"
    by code_simp
  have d: "new_Date (example_host 0)
     (cell ([scenarioA_row] ! 0) (map_timestamp (autoMapping scenarioA_headers))) =
     Some 1754024400000" by code_simp
  have e: "HourFromTime (1754024400000 + localTZA (example_host 0) 1754024400000 True) = 5"
    by code_simp
  from hour_is_local_hour [OF a b c d] e
  have "hour (processCsvData (example_host 0) [scenarioA_row]
     (autoMapping scenarioA_headers) ! 0) = 5" by simp
  with a b c d show ?thesis by blast
qed

text \<open>
  C6 as stated fails: on a host two hours east of UTC the scenario row gets \<open>hour = 7\<close>,
  while the UTC hour of its timestamp is 5.
\<close>

theorem utc_hour_counterexample:
  "map hour (processCsvData (example_host 7200000) [scenarioA_row]
     (autoMapping scenarioA_headers)) = [7] \<and>
   HourFromTime 1754024400000 = 5"
  by code_simp

section \<open>The query engine: answers and exceptions\<close>

lemma clampInt_range: "lo \<le> hi \<Longrightarrow> lo \<le> clampInt h n lo hi \<and> clampInt h n lo hi \<le> hi"
  by (simp add: clampInt_def)

lemma clampInt_undefined: "clampInt h Undefined 1 99 = 1"
  by (simp add: clampInt_def)

lemma percentile_rank_without_number:
  "str_match q percentileRx = None \<Longrightarrow>
   clampInt h (at_index (case str_match q percentileRx of Some a \<Rightarrow> a | None \<Rightarrow> [''95'']) 1)
     1 99 = 1"
  by (simp add: at_index_def clampInt_def)

lemma insertBy_length [simp]: "length (insertBy cmp x ys) = Suc (length ys)"
  by (induction ys) simp_all

lemma sortBy_length [simp]: "length (sortBy cmp xs) = length xs"
  by (induction xs) (simp_all add: sortBy_def)

lemma sortBy_Nil [simp]: "sortBy cmp xs = [] \<longleftrightarrow> xs = []"
  using sortBy_length [of cmp xs] by (metis length_0_conv)

lemma worstRsrp_nonempty: "subs \<noteq> [] \<Longrightarrow> \<exists>w. worstRsrp subs = Inr w"
  by (simp add: worstRsrp_def split: list.splits)

lemma groupByFrom_safe:
  "\<forall>r \<in> set arr. locationKey h r \<notin> set objectPrototypeKeys \<Longrightarrow>
   \<exists>g. groupByFrom h m arr = Inr g"
  by (induction arr arbitrary: m) (simp_all add: Let_def)

lemma sectorRanking_safe:
  "\<forall>r \<in> set subs. locationKey h r \<notin> set objectPrototypeKeys \<Longrightarrow>
   \<exists>rows. sectorRanking h subs cmp k = Inr rows"
  using groupByFrom_safe [of subs h "[]"]
  by (auto simp: sectorRanking_def groupBy_def)

lemma questionSubset_subset: "set (questionSubset h st q) \<subseteq> set (data st)"
  by (auto simp: questionSubset_def daySubset_def hourSubset_def techSubset_def filteredData_def
      Let_def case_prod_beta split: option.splits if_splits)

lemma dispatch_answers:
  assumes "subs \<noteq> []" and "\<forall>r \<in> set subs. locationKey h r \<notin> set objectPrototypeKeys"
  shows "\<exists>a. dispatch h st q subs = Inr a"
proof -
  obtain w where w: "worstRsrp subs = Inr w" using worstRsrp_nonempty [OF assms(1)] by blast
  obtain top where top: "sectorRanking h subs (\<lambda>a b. b - a)
      (clampInt h (at_index (case str_match q topNRx of Some a \<Rightarrow> a | None \<Rightarrow> [''5'']) 1) 1 50)
      = Inr top"
    using sectorRanking_safe [OF assms(2)] by blast
  obtain bot where bot: "sectorRanking h subs (\<lambda>a b. a - b)
      (clampInt h (at_index (case str_match q bottomNRx of Some a \<Rightarrow> a | None \<Rightarrow> [''5'']) 1) 1 50)
      = Inr bot"
    using sectorRanking_safe [OF assms(2)] by blast
  show ?thesis
    unfolding dispatch_def Let_def w top bot by simp
qed

lemma askLocalAI_no_rows:
  "questionSubset h st (toLowerCase question) = [] \<Longrightarrow>
   askLocalAI h st question = Inr NoMatchingRows"
  by (simp add: askLocalAI_def)

lemma askLocalAI_answers:
  assumes "\<forall>r \<in> set (data st). locationKey h r \<notin> set objectPrototypeKeys"
  shows "\<exists>a. askLocalAI h st question = Inr a"
proof (cases "questionSubset h st (toLowerCase question) = []")
  case True
  then show ?thesis by (simp add: askLocalAI_no_rows)
next
  case False
  have "\<forall>r \<in> set (questionSubset h st (toLowerCase question)).
          locationKey h r \<notin> set objectPrototypeKeys"
    using assms questionSubset_subset by blast
  from dispatch_answers [OF False this] False show ?thesis
    by (simp add: askLocalAI_def Let_def)
qed

text \<open>
  C1 at the question \<open>percentile throughput\<close>, which names no percentile, over two records
  with throughputs 90 and 10: the engine reports the 1st percentile (10), not the 95th (90).
  The default array \<open>['95']\<close> is read at index 1, which is \<open>undefined\<close>, and
  \<open>undefined | 0\<close> is 0, clamped to 1.
\<close>

theorem percentile_default_is_first:
  "askLocalAI (example_host 0)
     (sample_app [sample 3 90 (- 60) ''A'' Tech5G, sample 10 10 (- 90) ''B'' Tech4G])
     ''percentile throughput'' = Inr (PercentileThroughput 1 10) \<and>
   percentile [sample 3 90 (- 60) ''A'' Tech5G, sample 10 10 (- 90) ''B'' Tech4G]
     throughput 95 = 90"
  by code_simp

text \<open>
  C10 at a dataset whose one record has the sector label \<open>toString\<close> and the question
  \<open>top 3 sectors by throughput\<close>: \<open>groupBy\<close> throws a \<open>TypeError\<close>, so the engine
  raises instead of returning an answer.
\<close>

theorem inherited_sector_name_raises:
  "askLocalAI (example_host 0) (sample_app [sample 3 90 (- 60) ''toString'' Tech5G])
     ''top 3 sectors by throughput'' = Inl TypeError"
  by code_simp

end
